theory Spec2Isabelle
  imports Complex_Main
begin

section \<open>SpectroscoPy/Utilities.py\<close>

text \<open>
  A shallow embedding of the utility functions of \<^verbatim>\<open>SpectroscoPy/Utilities.py\<close>.

  Conventions of the embedding:
  \<^item> a Python float is a \<^typ>\<open>real\<close>: rounding, overflow and signed zeros are left out
    (but for the second embedding of the conversion, on binary64 floats, at the end of the
    embedding);
  \<^item> a Python list is a HOL list, a Python \<^verbatim>\<open>str\<close> an (ASCII) \<^typ>\<open>string\<close>, \<^verbatim>\<open>None\<close>
    or a list is an \<^typ>\<open>'a list option\<close>;
  \<^item> every \<^verbatim>\<open>raise\<close> of the source, and every exception the Python operations used there
    raise by themselves (\<^verbatim>\<open>ZeroDivisionError\<close>, \<^verbatim>\<open>IndexError\<close>, \<^verbatim>\<open>ValueError\<close>), is a value \<open>Inl e\<close>
    of the result type \<open>error + 'a\<close>;
  \<^item> the module \<^verbatim>\<open>SpectroscoPy.Constants\<close> is a parameter: a record of the three conversion
    constants the functions read.
\<close>

subsection \<open>Errors\<close>

text \<open>
  The source raises \<^verbatim>\<open>Exception\<close> with a message at every failure. Each constructor stands for
  one \<^verbatim>\<open>raise\<close> statement and carries the values formatted into its message:
  \<^item> \<open>UnsupportedUnitError u\<close>: "Error: Unsupported units '{0}'." (lines 59 and 71);
  \<^item> \<open>InconsistentLengthError\<close>: "Error: The lengths of frequencies and intensities are
    inconsistent." (line 88);
  \<^item> \<open>InconsistentLinewidthLengthError\<close>: "Error: If supplied, linewidths must have the same
    number of elements as frequencies and intensities." (line 91);
  \<^item> \<open>DuplicateBandIndexError i\<close>: "Error: Band index {0} assigned to multiple ir. rep. groups."
    (line 100);
  \<^item> \<open>BandIndexOutOfRangeError i n\<close>: "Error: Band index {0} is out of bounds for # modes = {1}."
    (line 103);
  \<^item> \<open>IncompleteBandCoverageError n\<close>: "Error: The number of bands references in the ir. rep.
    groups is more than # modes = {0}." (line 108);
  \<^item> \<open>InvalidLatticeShapeError\<close>: "Error: latticeVectors must be a 3x3 matrix." (line 187);
  \<^item> \<open>ShapeMismatchError\<close>: "Error: eigenvectors should be a 3N x N x 3 matrix." (line 208);
  \<^item> \<open>MassCountMismatchError\<close>: "Error: The number of supplied atomic masses is inconsistent
    with the number of displacements in the eigenvectors." (line 213).
  The last three constructors are the exceptions of Python itself.
\<close>

datatype error =
    UnsupportedUnitError string
  | InconsistentLengthError
  | InconsistentLinewidthLengthError
  | DuplicateBandIndexError int
  | BandIndexOutOfRangeError int nat
  | IncompleteBandCoverageError nat
  | InvalidLatticeShapeError
  | ShapeMismatchError
  | MassCountMismatchError
  | ZeroDivisionError
  | IndexError
  | ValueError

text \<open>
  A list comprehension \<^verbatim>\<open>[f(x) for x in xs]\<close> whose body may raise: the elements are computed
  from left to right and the first exception ends the comprehension.
\<close>

fun comprehension :: "('a \<Rightarrow> error + 'b) \<Rightarrow> 'a list \<Rightarrow> error + 'b list" where
  "comprehension f [] = Inr []"
| "comprehension f (x # xs) =
     (case f x of
        Inl e \<Rightarrow> Inl e
      | Inr y \<Rightarrow> (case comprehension f xs of Inl e \<Rightarrow> Inl e | Inr ys \<Rightarrow> Inr (y # ys)))"

text \<open>
  Python's \<^verbatim>\<open>x / y\<close> on floats: a zero divisor raises \<^verbatim>\<open>ZeroDivisionError\<close>. (The sequences
  the functions take are Python lists of Python floats; an element of a NumPy array would give
  an infinity or \<^verbatim>\<open>nan\<close> with a warning instead.)
\<close>

definition truediv :: "real \<Rightarrow> real \<Rightarrow> error + real" where
  "truediv x y = (if y = 0 then Inl ZeroDivisionError else Inr (x / y))"

text \<open>
  Subscription \<^verbatim>\<open>xs[i]\<close> of a Python list by an integer: the indices \<open>0\<close> to \<open>len(xs) - 1\<close> read
  from the front, the indices \<open>-len(xs)\<close> to \<open>-1\<close> read from the back, and every other index
  raises \<^verbatim>\<open>IndexError\<close>.
\<close>

definition getitem :: "'a list \<Rightarrow> int \<Rightarrow> error + 'a" where
  "getitem xs i =
     (if 0 \<le> i \<and> i < int (length xs) then Inr (xs ! nat i)
      else if i < 0 \<and> - int (length xs) \<le> i then Inr (xs ! nat (int (length xs) + i))
      else Inl IndexError)"

subsection \<open>Unit handling\<close>

text \<open>\<^verbatim>\<open>str.lower()\<close> on ASCII text: the letters A to Z are mapped to a to z.\<close>

definition lower_char :: "char \<Rightarrow> char" where
  "lower_char c =
     (case map_of (zip ''ABCDEFGHIJKLMNOPQRSTUVWXYZ'' ''abcdefghijklmnopqrstuvwxyz'') c of
        Some d \<Rightarrow> d
      | None \<Rightarrow> c)"

definition lower :: "string \<Rightarrow> string" where
  "lower s = map lower_char s"

text \<open>
  The constants of \<^verbatim>\<open>SpectroscoPy/Constants.py\<close> read by \<^verbatim>\<open>ConvertFrequencyUnits\<close>. The module
  is not part of the source at hand, so the three numbers are a parameter of the model.
\<close>

record constants =
  THzToInvCm :: real
  THzToMeV :: real
  THzToInvUm :: real

text \<open>\<^verbatim>\<open>ConvertFrequencyUnits(frequencies, unitsFrom, unitsTo)\<close>, lines 36 to 73.\<close>

definition ConvertFrequencyUnits ::
  "constants \<Rightarrow> real list \<Rightarrow> string \<Rightarrow> string \<Rightarrow> error + real list" where
  "ConvertFrequencyUnits Constants frequencies unitsFrom' unitsTo' =
     (let unitsFrom = lower unitsFrom'; unitsTo = lower unitsTo' in
      if unitsFrom = unitsTo then Inr frequencies
      else
        (case
           (if unitsFrom \<noteq> ''thz'' then
              (if unitsFrom = ''inv_cm'' then
                 comprehension (\<lambda>frequency. truediv frequency (THzToInvCm Constants)) frequencies
               else if unitsFrom = ''mev'' then
                 comprehension (\<lambda>frequency. truediv frequency (THzToMeV Constants)) frequencies
               else if unitsFrom = ''um'' then
                 comprehension (\<lambda>frequency. truediv 1 (frequency * THzToInvUm Constants)) frequencies
               else Inl (UnsupportedUnitError unitsFrom))
            else Inr frequencies)
         of
           Inl e \<Rightarrow> Inl e
         | Inr frequencies1 \<Rightarrow>
             (if unitsTo \<noteq> ''thz'' then
                (if unitsTo = ''inv_cm'' then
                   Inr (map (\<lambda>frequency. frequency * THzToInvCm Constants) frequencies1)
                 else if unitsTo = ''mev'' then
                   Inr (map (\<lambda>frequency. frequency * THzToMeV Constants) frequencies1)
                 else if unitsTo = ''um'' then
                   comprehension (\<lambda>frequency. truediv 1 (frequency * THzToInvUm Constants)) frequencies1
                 else Inl (UnsupportedUnitError unitsTo))
              else Inr frequencies1)))"

subsection \<open>Results of NumPy reductions\<close>

text \<open>
  NumPy does not raise where real arithmetic is undefined: \<^verbatim>\<open>np.average([])\<close> is \<^verbatim>\<open>nan\<close>,
  \<^verbatim>\<open>np.sqrt\<close> of a negative number is \<^verbatim>\<open>nan\<close>, \<^verbatim>\<open>np.divide\<close> by zero is \<^verbatim>\<open>nan\<close> or an infinity
  (each with a warning only). \<open>NonFinite\<close> stands for such a result, \<open>Num x\<close> for the float \<open>x\<close>.
\<close>

datatype npfloat = Num real | NonFinite

definition np_average :: "real list \<Rightarrow> npfloat" where
  "np_average xs = (if xs = [] then NonFinite else Num (sum_list xs / real (length xs)))"

definition np_sum :: "real list \<Rightarrow> npfloat" where
  "np_sum xs = Num (sum_list xs)"

definition np_sqrt :: "real \<Rightarrow> npfloat" where
  "np_sqrt x = (if x < 0 then NonFinite else Num (sqrt x))"

definition np_divide :: "real \<Rightarrow> npfloat \<Rightarrow> npfloat" where
  "np_divide x s =
     (case s of NonFinite \<Rightarrow> NonFinite | Num d \<Rightarrow> if d = 0 then NonFinite else Num (x / d))"

subsection \<open>Peak-table preparation\<close>

text \<open>
  The check of the band indices, lines 95 to 105: the inner loop over the indices of one group
  and the outer loop over the groups, with the set \<^verbatim>\<open>includedIndices\<close> passed along.
\<close>

fun check_bandIndices :: "nat \<Rightarrow> int set \<Rightarrow> int list \<Rightarrow> error + int set" where
  "check_bandIndices numModes includedIndices [] = Inr includedIndices"
| "check_bandIndices numModes includedIndices (index # rest) =
     (if index \<in> includedIndices then Inl (DuplicateBandIndexError index)
      else if index < 1 \<or> index > int numModes then Inl (BandIndexOutOfRangeError index numModes)
      else check_bandIndices numModes (insert index includedIndices) rest)"

fun check_irRepData :: "nat \<Rightarrow> int set \<Rightarrow> (string \<times> int list) list \<Rightarrow> error + int set" where
  "check_irRepData numModes includedIndices [] = Inr includedIndices"
| "check_irRepData numModes includedIndices ((symbol, bandIndices) # rest) =
     (case check_bandIndices numModes includedIndices bandIndices of
        Inl e \<Rightarrow> Inl e
      | Inr includedIndices' \<Rightarrow> check_irRepData numModes includedIndices' rest)"

text \<open>
  The body of the second loop, lines 114 to 141: the three values appended for one group (the
  linewidth only if linewidths were supplied).
\<close>

definition reduce_group ::
  "real list \<Rightarrow> real list \<Rightarrow> real list option \<Rightarrow> int list \<Rightarrow>
     error + (npfloat \<times> npfloat \<times> npfloat option)" where
  "reduce_group frequencies intensities linewidths bandIndices =
     (if length bandIndices = 1 then
        (let index = bandIndices ! 0 - 1 in
         case getitem frequencies index of
           Inl e \<Rightarrow> Inl e
         | Inr f \<Rightarrow>
             (case getitem intensities index of
                Inl e \<Rightarrow> Inl e
              | Inr i \<Rightarrow>
                  (case linewidths of
                     None \<Rightarrow> Inr (Num f, Num i, None)
                   | Some lw \<Rightarrow>
                       (case getitem lw index of
                          Inl e \<Rightarrow> Inl e
                        | Inr w \<Rightarrow> Inr (Num f, Num i, Some (Num w))))))
      else
        (case comprehension (\<lambda>index. getitem frequencies (index - 1)) bandIndices of
           Inl e \<Rightarrow> Inl e
         | Inr fs \<Rightarrow>
             (case comprehension (\<lambda>index. getitem intensities (index - 1)) bandIndices of
                Inl e \<Rightarrow> Inl e
              | Inr is \<Rightarrow>
                  (case linewidths of
                     None \<Rightarrow> Inr (np_average fs, np_sum is, None)
                   | Some lw \<Rightarrow>
                       (case comprehension (\<lambda>index. getitem lw (index - 1)) bandIndices of
                          Inl e \<Rightarrow> Inl e
                        | Inr ws \<Rightarrow> Inr (np_average fs, np_sum is, Some (np_average ws)))))))"

text \<open>
  The second loop, lines 113 to 141, with the lists \<^verbatim>\<open>frequenciesNew\<close>, \<^verbatim>\<open>intensitiesNew\<close> and
  \<^verbatim>\<open>linewidthsNew\<close> passed along; \<^verbatim>\<open>append\<close> adds at the end.
\<close>

fun reduce_groups ::
  "real list \<Rightarrow> real list \<Rightarrow> real list option \<Rightarrow> (string \<times> int list) list \<Rightarrow>
     npfloat list \<times> npfloat list \<times> npfloat list option \<Rightarrow>
     error + (npfloat list \<times> npfloat list \<times> npfloat list option)" where
  "reduce_groups frequencies intensities linewidths [] new = Inr new"
| "reduce_groups frequencies intensities linewidths ((symbol, bandIndices) # rest)
     (frequenciesNew, intensitiesNew, linewidthsNew) =
     (case reduce_group frequencies intensities linewidths bandIndices of
        Inl e \<Rightarrow> Inl e
      | Inr (f, i, l) \<Rightarrow>
          reduce_groups frequencies intensities linewidths rest
            (frequenciesNew @ [f], intensitiesNew @ [i],
             (case l of
                None \<Rightarrow> linewidthsNew
              | Some w \<Rightarrow> map_option (\<lambda>ws. ws @ [w]) linewidthsNew)))"

text \<open>\<^verbatim>\<open>GroupForPeakTable(frequencies, intensities, irRepData, linewidths = None)\<close>, lines 79 to 143.\<close>

definition GroupForPeakTable ::
  "real list \<Rightarrow> real list \<Rightarrow> (string \<times> int list) list \<Rightarrow> real list option \<Rightarrow>
     error + (npfloat list \<times> npfloat list \<times> string list \<times> npfloat list option)" where
  "GroupForPeakTable frequencies intensities irRepData linewidths =
     (let numModes = length frequencies in
      if length intensities \<noteq> numModes then Inl InconsistentLengthError
      else if (case linewidths of None \<Rightarrow> False | Some lw \<Rightarrow> length lw \<noteq> numModes)
      then Inl InconsistentLinewidthLengthError
      else
        (case check_irRepData numModes {} irRepData of
           Inl e \<Rightarrow> Inl e
         | Inr includedIndices \<Rightarrow>
             if card includedIndices \<noteq> length frequencies
             then Inl (IncompleteBandCoverageError numModes)
             else
               (case reduce_groups frequencies intensities linewidths irRepData
                       ([], [], (case linewidths of None \<Rightarrow> None | Some lw \<Rightarrow> Some []))
                of
                  Inl e \<Rightarrow> Inl e
                | Inr (frequenciesNew, intensitiesNew, linewidthsNew) \<Rightarrow>
                    Inr (frequenciesNew, intensitiesNew, map fst irRepData, linewidthsNew))))"

subsection \<open>Helper routines\<close>

text \<open>
  \<^verbatim>\<open>dim1, dim2 = np.shape(latticeVectors)\<close> for a list of lists of floats: the shape has two
  entries when the list is not empty and its rows have one length; an empty or a ragged list
  makes the unpacking (or the conversion to an array) raise \<^verbatim>\<open>ValueError\<close>.
\<close>

definition np_shape2 :: "real list list \<Rightarrow> error + nat \<times> nat" where
  "np_shape2 m =
     (case m of
        [] \<Rightarrow> Inl ValueError
      | r # rs \<Rightarrow>
          if list_all (\<lambda>r'. length r' = length r) rs then Inr (length m, length r)
          else Inl ValueError)"

text \<open>\<^verbatim>\<open>np.multiply(f, v)\<close> of a float and a vector, and \<^verbatim>\<open>+\<close> on two vectors of one length.\<close>

definition np_multiply :: "real \<Rightarrow> real list \<Rightarrow> real list" where
  "np_multiply f v = map (\<lambda>x. f * x) v"

definition np_add :: "real list \<Rightarrow> real list \<Rightarrow> real list" where
  "np_add u v = map2 (+) u v"

text \<open>
  \<^verbatim>\<open>FractionalToCartesianCoordinates(positions, latticeVectors)\<close>, lines 175 to 194. The target
  \<^verbatim>\<open>f1, f2, f3\<close> of the comprehension unpacks each position: one that has not three components
  raises \<^verbatim>\<open>ValueError\<close>.
\<close>

definition FractionalToCartesianCoordinates ::
  "real list list \<Rightarrow> real list list \<Rightarrow> error + real list list" where
  "FractionalToCartesianCoordinates positions latticeVectors =
     (case np_shape2 latticeVectors of
        Inl e \<Rightarrow> Inl e
      | Inr (dim1, dim2) \<Rightarrow>
          if dim1 \<noteq> 3 \<or> dim2 \<noteq> 3 then Inl InvalidLatticeShapeError
          else
            (let v1 = latticeVectors ! 0; v2 = latticeVectors ! 1; v3 = latticeVectors ! 2 in
             comprehension
               (\<lambda>position.
                  case position of
                    [f1, f2, f3] \<Rightarrow>
                      Inr (np_add (np_add (np_multiply f1 v1) (np_multiply f2 v2)) (np_multiply f3 v3))
                  | _ \<Rightarrow> Inl ValueError)
               positions))"

text \<open>
  \<^verbatim>\<open>eigendisplacements[i, j, :] = values\<close>, where the slice has three entries: three values are
  stored, one value is broadcast, any other number raises \<^verbatim>\<open>ValueError\<close>.
\<close>

definition assign_slice3 :: "npfloat list \<Rightarrow> error + npfloat list" where
  "assign_slice3 vs =
     (if length vs = 3 then Inr vs
      else if length vs = 1 then Inr (replicate 3 (vs ! 0))
      else Inl ValueError)"

text \<open>
  \<^verbatim>\<open>EigenvectorsToEigendisplacements(eigenvectors, atomicMasses)\<close>, lines 196 to 229. The two
  loops assign every slice of the array of zeros, so the result is the list of the rows
  assigned, in the order of the loops; \<open>comprehension\<close> collects them and stops at the first
  exception.
\<close>

definition EigenvectorsToEigendisplacements ::
  "real list list list \<Rightarrow> real list \<Rightarrow> error + npfloat list list list" where
  "EigenvectorsToEigendisplacements eigenvectors atomicMasses =
     (case getitem eigenvectors 0 of
        Inl e \<Rightarrow> Inl e
      | Inr eigenvectors0 \<Rightarrow>
          (case getitem eigenvectors0 0 of
             Inl e \<Rightarrow> Inl e
           | Inr eigenvectors00 \<Rightarrow>
               (let numModes = length eigenvectors;
                    numAtoms = length eigenvectors0;
                    eigDim3 = length eigenvectors00 in
                if numModes \<noteq> 3 * numAtoms \<or> eigDim3 \<noteq> 3 then Inl ShapeMismatchError
                else
                  (let massesDim1 = length atomicMasses in
                   if massesDim1 \<noteq> numAtoms then Inl MassCountMismatchError
                   else
                     (let sqrtMasses = map np_sqrt atomicMasses in
                      comprehension
                        (\<lambda>i. let eigenvector = eigenvectors ! i in
                           comprehension
                             (\<lambda>j. case getitem eigenvector (int j) of
                                    Inl e \<Rightarrow> Inl e
                                  | Inr d \<Rightarrow>
                                      assign_slice3 (map (\<lambda>x. np_divide x (sqrtMasses ! j)) d))
                             [0..<numAtoms])
                        [0..<numModes])))))"

subsection \<open>Binary64 arithmetic\<close>

text \<open>
  Everywhere else a Python float is a real number. For the one statement that is about
  rounding, the conversion is embedded a second time with the arithmetic of Python floats
  (IEEE 754 binary64): a float is a finite value (the two zeros are not told apart), an
  infinity with its sign (\<open>Inf True\<close> is the negative one) or \<^verbatim>\<open>nan\<close>.
\<close>

datatype float64 = Float real | Inf bool | NaN

text \<open>Rounding to the nearest integer, a tie to the even one.\<close>

definition rint :: "real \<Rightarrow> int" where
  "rint x =
     (let n = \<lfloor>x\<rfloor> in
      if x - of_int n < 1 / 2 then n
      else if 1 / 2 < x - of_int n then n + 1
      else if even n then n else n + 1)"

text \<open>
  The float of a real result: round to nearest, ties to even, in units of the last of 53
  binary digits; below \<open>2 ^ -1022\<close> the unit stays \<open>2 ^ -1074\<close> (gradual underflow, down to
  zero), and a rounded magnitude of \<open>2 ^ 1024\<close> or more is an infinity.
\<close>

definition round64 :: "real \<Rightarrow> float64" where
  "round64 x =
     (if x = 0 then Float 0
      else
        (let quantum =
               (if \<bar>x\<bar> < 1 / 2 ^ 1022 then 1 / 2 ^ 1074
                else 2 powr of_int (\<lfloor>log 2 \<bar>x\<bar>\<rfloor> - 52));
             y = of_int (rint (x / quantum)) * quantum
         in if 2 ^ 1024 \<le> \<bar>y\<bar> then Inf (x < 0) else Float y))"




text \<open>The constants of \<^verbatim>\<open>SpectroscoPy/Constants.py\<close> as floats, again a parameter.\<close>

record constants64 =
  THzToInvCm64 :: float64
  THzToMeV64 :: float64
  THzToInvUm64 :: float64


section \<open>Notions of the specification\<close>

subsection \<open>Units\<close>

text \<open>The four recognised unit keys.\<close>

definition supported_units :: "string set" where
  "supported_units = {''thz'', ''inv_cm'', ''mev'', ''um''}"




text \<open>The conversion constants are physical constants: none of them is zero.\<close>

definition nonzero_constants :: "constants \<Rightarrow> bool" where
  "nonzero_constants K \<longleftrightarrow> THzToInvCm K \<noteq> 0 \<and> THzToMeV K \<noteq> 0 \<and> THzToInvUm K \<noteq> 0"

text \<open>A table of constants for the examples (1 THz is 33.35641 / cm and 4.13567 meV).\<close>

definition sample_constants :: constants where
  "sample_constants =
     \<lparr>THzToInvCm = 33.35641, THzToMeV = 4.13567, THzToInvUm = 0.003335641\<rparr>"

text \<open>The same table in binary64: the floats nearest to the three decimal constants.\<close>

definition sample_constants64 :: constants64 where
  "sample_constants64 =
     \<lparr>THzToInvCm64 = Float (2347248681975273 / 2 ^ 46),
      THzToMeV64 = Float (4656350467731835 / 2 ^ 50),
      THzToInvUm64 = Float (7691464481096575 / 2 ^ 61)\<rparr>"

subsection \<open>Groups of band indices\<close>

text \<open>
  The lengths of the inputs of \<open>GroupForPeakTable\<close> are consistent: there are as many
  intensities, and as many linewidths if there are any, as frequencies.
\<close>

definition consistent_lengths :: "real list \<Rightarrow> real list \<Rightarrow> real list option \<Rightarrow> bool" where
  "consistent_lengths frequencies intensities linewidths \<longleftrightarrow>
     length intensities = length frequencies \<and>
     (case linewidths of None \<Rightarrow> True | Some lw \<Rightarrow> length lw = length frequencies)"

text \<open>All band indices of all groups, in the order in which the loops visit them.\<close>

definition all_indices :: "(string \<times> int list) list \<Rightarrow> int list" where
  "all_indices irRepData = concat (map snd irRepData)"

text \<open>Every index of a list lies in \<open>1..N\<close>.\<close>

definition in_range :: "nat \<Rightarrow> int list \<Rightarrow> bool" where
  "in_range N bandIndices \<longleftrightarrow> list_all (\<lambda>index. 1 \<le> index \<and> index \<le> int N) bandIndices"

text \<open>The groups partition \<open>{1..N}\<close>: no index is repeated and none is left out.\<close>

definition partitions :: "nat \<Rightarrow> (string \<times> int list) list \<Rightarrow> bool" where
  "partitions N irRepData \<longleftrightarrow>
     distinct (all_indices irRepData) \<and> set (all_indices irRepData) = {1..int N}"

text \<open>The values of the members of a group (band indices count from 1), and their mean.\<close>

definition members :: "real list \<Rightarrow> int list \<Rightarrow> real list" where
  "members xs bandIndices = map (\<lambda>index. xs ! nat (index - 1)) bandIndices"

definition mean :: "real list \<Rightarrow> real" where
  "mean xs = sum_list xs / real (length xs)"

text \<open>
  The value of one group in the result: the single member of a group of one index, the average
  or the sum of the members otherwise.
\<close>

definition grouped_average :: "real list \<Rightarrow> int list \<Rightarrow> npfloat" where
  "grouped_average xs bandIndices =
     (if length bandIndices = 1 then Num (xs ! nat (bandIndices ! 0 - 1))
      else np_average (members xs bandIndices))"

definition grouped_sum :: "real list \<Rightarrow> int list \<Rightarrow> npfloat" where
  "grouped_sum xs bandIndices =
     (if length bandIndices = 1 then Num (xs ! nat (bandIndices ! 0 - 1))
      else np_sum (members xs bandIndices))"

subsection \<open>Shapes\<close>

text \<open>A lattice is a matrix of three rows of three numbers; a position has three components.\<close>

definition lattice_3x3 :: "real list list \<Rightarrow> bool" where
  "lattice_3x3 latticeVectors \<longleftrightarrow>
     length latticeVectors = 3 \<and> list_all (\<lambda>row. length row = 3) latticeVectors"

definition three_component :: "real list list \<Rightarrow> bool" where
  "three_component positions \<longleftrightarrow> list_all (\<lambda>position. length position = 3) positions"

text \<open>
  An eigenvector set for \<open>N\<close> atoms: \<open>3 * N\<close> modes, each of them \<open>N\<close> displacements of three
  components.
\<close>

definition eigenvector_shape :: "nat \<Rightarrow> real list list list \<Rightarrow> bool" where
  "eigenvector_shape N eigenvectors \<longleftrightarrow>
     length eigenvectors = 3 * N \<and>
     list_all (\<lambda>mode. length mode = N \<and> list_all (\<lambda>d. length d = 3) mode) eigenvectors"

section \<open>Frequency unit conversion\<close>

lemma comprehension_truediv:
  "comprehension (\<lambda>x. truediv (a x) (b x)) xs =
     (if \<exists>x\<in>set xs. b x = 0 then Inl ZeroDivisionError else Inr (map (\<lambda>x. a x / b x) xs))"
  by (induction xs) (auto simp: truediv_def)

lemma supported_units_cases:
  assumes "u \<in> supported_units"
  shows "u = ''thz'' \<or> u = ''inv_cm'' \<or> u = ''mev'' \<or> u = ''um''"
  using assms by (simp add: supported_units_def)



lemma lower_sample_keys:
  "lower ''thz'' = ''thz''" "lower ''inv_cm'' = ''inv_cm''" "lower ''mev'' = ''mev''"
  "lower ''um'' = ''um''" "lower ''THz'' = ''thz''" "lower ''foo'' = ''foo''"
  by (simp_all add: lower_def lower_char_def)

lemma nonzero_sample_constants: "nonzero_constants sample_constants"
  by (simp add: nonzero_constants_def sample_constants_def)

text \<open>
  C7. If the two unit strings are the same after lower-casing, \<open>ConvertFrequencyUnits\<close> returns
  the list of values it was given, whatever the strings and the values are: no arithmetic is
  done and no new list is built.
\<close>

theorem ConvertFrequencyUnits_identity:
  assumes "lower unitsFrom = lower unitsTo"
  shows "ConvertFrequencyUnits K frequencies unitsFrom unitsTo = Inr frequencies"
  using assms by (simp add: ConvertFrequencyUnits_def)

theorem ConvertFrequencyUnits_identity_witness:
  "lower ''THz'' = lower ''thz'' \<and>
   ConvertFrequencyUnits sample_constants [1, 0, - 5 / 2] ''THz'' ''thz'' = Inr [1, 0, - 5 / 2]"
proof -
  have h: "lower ''THz'' = lower ''thz''"
    by (simp add: lower_sample_keys)
  from h ConvertFrequencyUnits_identity [OF h, of sample_constants "[1, 0, - 5 / 2]"]
  show ?thesis by simp
qed




text \<open>
  C3 (as amended). When the two keys differ after lower-casing: an unrecognised source key
  makes the call fail with \<open>UnsupportedUnitError\<close> carrying that (lower-cased) key; with a
  recognised source key, an unrecognised target key makes the call fail as well, with
  \<open>UnsupportedUnitError\<close> carrying the (lower-cased) target key or, when the first stage
  divides by zero, with \<^verbatim>\<open>ZeroDivisionError\<close>; with nonzero constants and no zero value
  converted from \<^verbatim>\<open>um\<close> the error is the \<open>UnsupportedUnitError\<close>. (Equal keys are returned
  from before any key is looked at, see the counterexample.)
\<close>

theorem ConvertFrequencyUnits_unsupported:
  assumes ne: "lower unitsFrom \<noteq> lower unitsTo"
  shows "(lower unitsFrom \<notin> supported_units \<longrightarrow>
            ConvertFrequencyUnits K frequencies unitsFrom unitsTo =
              Inl (UnsupportedUnitError (lower unitsFrom))) \<and>
         (lower unitsFrom \<in> supported_units \<and> lower unitsTo \<notin> supported_units \<longrightarrow>
            ConvertFrequencyUnits K frequencies unitsFrom unitsTo =
              Inl (UnsupportedUnitError (lower unitsTo)) \<or>
            ConvertFrequencyUnits K frequencies unitsFrom unitsTo = Inl ZeroDivisionError) \<and>
         (lower unitsFrom \<in> supported_units \<and> lower unitsTo \<notin> supported_units \<and>
          nonzero_constants K \<and> (lower unitsFrom = ''um'' \<longrightarrow> 0 \<notin> set frequencies) \<longrightarrow>
            ConvertFrequencyUnits K frequencies unitsFrom unitsTo =
              Inl (UnsupportedUnitError (lower unitsTo)))"
proof (intro conjI impI)
  assume "lower unitsFrom \<notin> supported_units"
  then show "ConvertFrequencyUnits K frequencies unitsFrom unitsTo =
      Inl (UnsupportedUnitError (lower unitsFrom))"
    using ne by (simp add: ConvertFrequencyUnits_def supported_units_def)
next
  assume a: "lower unitsFrom \<in> supported_units \<and> lower unitsTo \<notin> supported_units"
  then have t: "lower unitsTo \<noteq> ''thz''" "lower unitsTo \<noteq> ''inv_cm''"
      "lower unitsTo \<noteq> ''mev''" "lower unitsTo \<noteq> ''um''"
    by (auto simp: supported_units_def)
  show "ConvertFrequencyUnits K frequencies unitsFrom unitsTo =
      Inl (UnsupportedUnitError (lower unitsTo)) \<or>
    ConvertFrequencyUnits K frequencies unitsFrom unitsTo = Inl ZeroDivisionError"
  proof -
    from a have "lower unitsFrom \<in> supported_units" by simp
    from supported_units_cases [OF this] ne t show ?thesis
      by (elim disjE; simp add: ConvertFrequencyUnits_def comprehension_truediv)
  qed
next
  assume a: "lower unitsFrom \<in> supported_units \<and> lower unitsTo \<notin> supported_units \<and>
    nonzero_constants K \<and> (lower unitsFrom = ''um'' \<longrightarrow> 0 \<notin> set frequencies)"
  then have t: "lower unitsTo \<noteq> ''thz''" "lower unitsTo \<noteq> ''inv_cm''"
      "lower unitsTo \<noteq> ''mev''" "lower unitsTo \<noteq> ''um''"
    by (auto simp: supported_units_def)
  from a have k: "THzToInvCm K \<noteq> 0" "THzToMeV K \<noteq> 0" "THzToInvUm K \<noteq> 0"
    by (simp_all add: nonzero_constants_def)
  from a have f: "lower unitsFrom = ''thz'' \<or> lower unitsFrom = ''inv_cm'' \<or>
      lower unitsFrom = ''mev'' \<or> lower unitsFrom = ''um''"
    by (simp add: supported_units_def)
  from a have z: "lower unitsFrom = ''um'' \<Longrightarrow> 0 \<notin> set frequencies"
    by simp
  from f z show "ConvertFrequencyUnits K frequencies unitsFrom unitsTo =
      Inl (UnsupportedUnitError (lower unitsTo))"
    using ne t
    by (elim disjE; simp add: ConvertFrequencyUnits_def comprehension_truediv k)
qed

theorem ConvertFrequencyUnits_unsupported_witness:
  "lower ''foo'' \<noteq> lower ''thz'' \<and> lower ''foo'' \<notin> supported_units \<and>
   ConvertFrequencyUnits sample_constants [1] ''foo'' ''thz'' = Inl (UnsupportedUnitError ''foo'') \<and>
   lower ''um'' \<noteq> lower ''foo'' \<and> lower ''um'' \<in> supported_units \<and>
   nonzero_constants sample_constants \<and> 0 \<notin> set [1::real] \<and>
   ConvertFrequencyUnits sample_constants [1] ''um'' ''foo'' = Inl (UnsupportedUnitError ''foo'')"
proof -
  have 1: "lower ''foo'' \<noteq> lower ''thz''"
    by (simp add: lower_sample_keys)
  have 2: "lower ''um'' \<noteq> lower ''foo''"
    by (simp add: lower_sample_keys)
  have 3: "lower ''foo'' \<notin> supported_units \<and> lower ''um'' \<in> supported_units \<and>
      nonzero_constants sample_constants \<and> 0 \<notin> set [1::real]"
    by (simp add: lower_sample_keys supported_units_def nonzero_sample_constants)
  from 1 2 3 ConvertFrequencyUnits_unsupported [OF 1, of sample_constants "[1]"]
    ConvertFrequencyUnits_unsupported [OF 2, of sample_constants "[1]"]
  show ?thesis by (simp add: lower_sample_keys)
qed

text \<open>
  The claim as stated (also when the two keys are equal) fails: an unrecognised key that is
  both source and target is accepted, and the values are returned.
\<close>

theorem ConvertFrequencyUnits_equal_invalid_counterexample:
  "lower ''foo'' \<notin> supported_units \<and>
   ConvertFrequencyUnits sample_constants [1] ''foo'' ''foo'' = Inr [1]"
  by (simp add: ConvertFrequencyUnits_def lower_sample_keys supported_units_def)



subsection \<open>The round trip in binary64\<close>



text \<open>
  The floats of \<open>sample_constants64\<close> are the decimal constants of \<open>sample_constants\<close>,
  rounded.
\<close>

lemma round64_normal:
  assumes "x \<noteq> 0" and "\<not> \<bar>x\<bar> < 1 / 2 ^ 1022" and "\<lfloor>log 2 \<bar>x\<bar>\<rfloor> = e"
    and "rint (x / 2 powr of_int (e - 52)) = n"
    and "\<not> 2 ^ 1024 \<le> \<bar>real_of_int n * 2 powr of_int (e - 52)\<bar>"
  shows "round64 x = Float (of_int n * 2 powr of_int (e - 52))"
  using assms by (simp only: round64_def Let_def if_False)

lemma round64_sample: "round64 0.003335641 = Float (7691464481096575 / 2 ^ 61)"
proof -
  let ?x = "0.003335641 :: real"
  have 1: "- 9 \<le> log 2 ?x"
    by (subst le_log_iff) (simp_all add: powr_minus_divide)
  have 2: "log 2 ?x < - 8"
    by (subst log_less_iff) (simp_all add: powr_minus_divide)
  from 1 2 have e: "\<lfloor>log 2 \<bar>?x\<bar>\<rfloor> = - 9"
    by (simp add: floor_eq_iff)
  have q: "2 powr of_int (- 9 - 52) = (1 / 2 ^ 61 :: real)"
    by (simp add: powr_minus_divide)
  have f: "\<lfloor>?x / (1 / 2 ^ 61)\<rfloor> = 7691464481096575"
    by (simp add: floor_eq_iff)
  have r: "rint (?x / 2 powr of_int (- 9 - 52)) = 7691464481096575"
    unfolding q rint_def Let_def f by simp
  have b: "\<not> 2 ^ 1024 \<le> \<bar>real_of_int 7691464481096575 * 2 powr of_int (- 9 - 52)\<bar>"
    unfolding q by simp
  have "round64 ?x = Float (of_int 7691464481096575 * 2 powr of_int (- 9 - 52))"
    by (rule round64_normal [OF _ _ e r b]) simp_all
  then show ?thesis
    unfolding q by simp
qed

lemma round64_sample_inv_cm: "round64 33.35641 = THzToInvCm64 sample_constants64"
proof -
  let ?x = "33.35641 :: real"
  have 1: "5 \<le> log 2 ?x"
    by (subst le_log_iff) simp_all
  have 2: "log 2 ?x < 6"
    by (subst log_less_iff) simp_all
  from 1 2 have e: "\<lfloor>log 2 \<bar>?x\<bar>\<rfloor> = 5"
    by (simp add: floor_eq_iff)
  have q: "2 powr of_int (5 - 52) = (1 / 2 ^ 47 :: real)"
    by (simp add: powr_minus_divide)
  have f: "\<lfloor>?x / (1 / 2 ^ 47)\<rfloor> = 4694497363950546"
    by (simp add: floor_eq_iff)
  have r: "rint (?x / 2 powr of_int (5 - 52)) = 4694497363950546"
    unfolding q rint_def Let_def f by simp
  have b: "\<not> 2 ^ 1024 \<le> \<bar>real_of_int 4694497363950546 * 2 powr of_int (5 - 52)\<bar>"
    unfolding q by simp
  have "round64 ?x = Float (of_int 4694497363950546 * 2 powr of_int (5 - 52))"
    by (rule round64_normal [OF _ _ e r b]) simp_all
  then show ?thesis
    unfolding q by (simp add: sample_constants64_def)
qed

lemma round64_sample_mev: "round64 4.13567 = THzToMeV64 sample_constants64"
proof -
  let ?x = "4.13567 :: real"
  have 1: "2 \<le> log 2 ?x"
    by (subst le_log_iff) simp_all
  have 2: "log 2 ?x < 3"
    by (subst log_less_iff) simp_all
  from 1 2 have e: "\<lfloor>log 2 \<bar>?x\<bar>\<rfloor> = 2"
    by (simp add: floor_eq_iff)
  have q: "2 powr of_int (2 - 52) = (1 / 2 ^ 50 :: real)"
    by (simp add: powr_minus_divide)
  have f: "\<lfloor>?x / (1 / 2 ^ 50)\<rfloor> = 4656350467731834"
    by (simp add: floor_eq_iff)
  have r: "rint (?x / 2 powr of_int (2 - 52)) = 4656350467731835"
    unfolding q rint_def Let_def f by simp
  have b: "\<not> 2 ^ 1024 \<le> \<bar>real_of_int 4656350467731835 * 2 powr of_int (2 - 52)\<bar>"
    unfolding q by simp
  have "round64 ?x = Float (of_int 4656350467731835 * 2 powr of_int (2 - 52))"
    by (rule round64_normal [OF _ _ e r b]) simp_all
  then show ?thesis
    unfolding q by (simp add: sample_constants64_def)
qed


section \<open>Peak-table grouping\<close>

subsection \<open>The check of the band indices\<close>

lemma check_bandIndices_append:
  "check_bandIndices N inc (xs @ ys) =
     (case check_bandIndices N inc xs of
        Inl e \<Rightarrow> Inl e
      | Inr inc' \<Rightarrow> check_bandIndices N inc' ys)"
  by (induction xs arbitrary: inc) simp_all

lemma check_irRepData_all_indices:
  "check_irRepData N inc g = check_bandIndices N inc (all_indices g)"
proof (induction g arbitrary: inc)
  case Nil
  show ?case by (simp add: all_indices_def)
next
  case (Cons p g)
  obtain s b where p: "p = (s, b)" by (cases p)
  from Cons.IH show ?case
    by (simp add: p all_indices_def check_bandIndices_append split: sum.split)
qed

lemma check_bandIndices_ok:
  "distinct xs \<Longrightarrow> set xs \<inter> inc = {} \<Longrightarrow> in_range N xs \<Longrightarrow>
     check_bandIndices N inc xs = Inr (inc \<union> set xs)"
proof (induction xs arbitrary: inc)
  case Nil
  show ?case by simp
next
  case (Cons x xs)
  from Cons.prems have x: "x \<notin> inc" "1 \<le> x" "x \<le> int N"
    by (auto simp: in_range_def)
  from Cons.prems have "distinct xs" "set xs \<inter> insert x inc = {}" "in_range N xs"
    by (auto simp: in_range_def)
  then have "check_bandIndices N (insert x inc) xs = Inr (insert x inc \<union> set xs)"
    by (rule Cons.IH)
  with x show ?case by simp
qed

lemma check_bandIndices_Inr:
  "check_bandIndices N inc xs = Inr s \<Longrightarrow>
     distinct xs \<and> set xs \<inter> inc = {} \<and> in_range N xs \<and> s = inc \<union> set xs"
proof (induction xs arbitrary: inc)
  case Nil
  then show ?case by (simp add: in_range_def)
next
  case (Cons x xs)
  from Cons.prems have x: "x \<notin> inc" "1 \<le> x" "x \<le> int N"
    and rest: "check_bandIndices N (insert x inc) xs = Inr s"
    by (auto split: if_splits)
  from Cons.IH [OF rest] x show ?case
    by (auto simp: in_range_def)
qed

lemma check_bandIndices_duplicate:
  assumes "distinct pre" and "set pre \<inter> inc = {}" and "in_range N pre"
    and "i \<in> inc \<union> set pre"
  shows "check_bandIndices N inc (pre @ i # post) = Inl (DuplicateBandIndexError i)"
  using assms by (simp add: check_bandIndices_append check_bandIndices_ok)

subsection \<open>The reduction of the groups\<close>

lemma comprehension_getitem:
  "in_range (length xs) b \<Longrightarrow>
     comprehension (\<lambda>index. getitem xs (index - 1)) b = Inr (members xs b)"
  by (induction b) (simp_all add: members_def in_range_def getitem_def)

lemma reduce_group_ok:
  assumes "in_range (length frequencies) b"
    and "consistent_lengths frequencies intensities linewidths"
  shows "reduce_group frequencies intensities linewidths b =
     Inr (grouped_average frequencies b, grouped_sum intensities b,
          map_option (\<lambda>lw. grouped_average lw b) linewidths)"
proof (cases "length b = 1")
  case True
  then obtain x where b: "b = [x]" by (cases b) auto
  with assms(1) have "1 \<le> x" "x \<le> int (length frequencies)"
    by (simp_all add: in_range_def)
  with assms(2) show ?thesis
    by (cases linewidths)
      (simp_all add: b reduce_group_def getitem_def grouped_average_def grouped_sum_def Let_def
        consistent_lengths_def)
next
  case False
  with assms show ?thesis
    by (cases linewidths)
      (simp_all add: reduce_group_def comprehension_getitem grouped_average_def grouped_sum_def
        consistent_lengths_def)
qed

lemma reduce_groups_ok:
  assumes "consistent_lengths frequencies intensities linewidths"
  shows "list_all (\<lambda>p. in_range (length frequencies) (snd p)) g \<Longrightarrow>
     reduce_groups frequencies intensities linewidths g (fN, iN, lN) =
       Inr (fN @ map (\<lambda>p. grouped_average frequencies (snd p)) g,
            iN @ map (\<lambda>p. grouped_sum intensities (snd p)) g,
            (case linewidths of
               None \<Rightarrow> lN
             | Some lw \<Rightarrow> map_option (\<lambda>ws. ws @ map (\<lambda>p. grouped_average lw (snd p)) g) lN))"
proof (induction g arbitrary: fN iN lN)
  case Nil
  show ?case by (simp add: option.map_ident split: option.split)
next
  case (Cons p g)
  obtain s b where p: "p = (s, b)" by (cases p)
  from Cons.prems have b: "in_range (length frequencies) b"
    and g: "list_all (\<lambda>p. in_range (length frequencies) (snd p)) g"
    by (simp_all add: p)
  show ?case
    by (simp add: p reduce_group_ok [OF b assms] Cons.IH [OF g] option.map_comp o_def
        split: option.split)
qed

lemma in_range_groups:
  assumes "in_range N (all_indices g)"
  shows "list_all (\<lambda>p. in_range N (snd p)) g"
  using assms by (auto simp: in_range_def all_indices_def list_all_iff)

lemma partitions_in_range:
  assumes "partitions N g"
  shows "in_range N (all_indices g)"
  using assms by (auto simp: partitions_def in_range_def list_all_iff)

lemma partitions_card:
  assumes "partitions N g"
  shows "card (set (all_indices g)) = N"
proof -
  from assms have "card (set (all_indices g)) = card {1..int N}"
    by (simp only: partitions_def)
  then show ?thesis by simp
qed

text \<open>The result for consistent lengths and groups that partition the band indices.\<close>

lemma GroupForPeakTable_valid:
  assumes len: "consistent_lengths frequencies intensities linewidths"
    and part: "partitions (length frequencies) irRepData"
  shows "GroupForPeakTable frequencies intensities irRepData linewidths =
     Inr (map (\<lambda>p. grouped_average frequencies (snd p)) irRepData,
          map (\<lambda>p. grouped_sum intensities (snd p)) irRepData,
          map fst irRepData,
          map_option (\<lambda>lw. map (\<lambda>p. grouped_average lw (snd p)) irRepData) linewidths)"
proof -
  let ?N = "length frequencies"
  let ?xs = "all_indices irRepData"
  from part have d: "distinct ?xs"
    by (simp add: partitions_def)
  note r = partitions_in_range [OF part]
  have chk: "check_irRepData ?N {} irRepData = Inr (set ?xs)"
    using check_bandIndices_ok [OF d _ r, of "{}"]
    by (simp add: check_irRepData_all_indices)
  note card = partitions_card [OF part]
  note red = reduce_groups_ok [OF len in_range_groups [OF r], of "[]" "[]"
      "case linewidths of None \<Rightarrow> None | Some lw \<Rightarrow> Some []"]
  from len chk card red show ?thesis
    by (cases linewidths) (simp_all add: GroupForPeakTable_def consistent_lengths_def)
qed

text \<open>A call that returns had consistent lengths and a partition.\<close>

lemma GroupForPeakTable_Inr:
  assumes "GroupForPeakTable frequencies intensities irRepData linewidths = Inr r"
  shows "consistent_lengths frequencies intensities linewidths \<and>
         partitions (length frequencies) irRepData"
proof -
  let ?N = "length frequencies"
  let ?xs = "all_indices irRepData"
  from assms have len: "length intensities = ?N"
    by (simp add: GroupForPeakTable_def Let_def split: if_splits)
  from assms have lw: "case linewidths of None \<Rightarrow> True | Some lw \<Rightarrow> length lw = ?N"
    by (cases linewidths) (simp_all add: GroupForPeakTable_def Let_def split: if_splits)
  from assms len lw obtain inc where chk: "check_irRepData ?N {} irRepData = Inr inc"
    and card: "card inc = ?N"
    by (cases linewidths; cases "check_irRepData ?N {} irRepData")
      (auto simp: GroupForPeakTable_def Let_def split: if_splits)
  from chk have "check_bandIndices ?N {} ?xs = Inr inc"
    by (simp add: check_irRepData_all_indices)
  from check_bandIndices_Inr [OF this]
  have d: "distinct ?xs" and r: "in_range ?N ?xs" and inc: "inc = set ?xs"
    by simp_all
  from r have sub: "set ?xs \<subseteq> {1..int ?N}"
    by (auto simp: in_range_def list_all_iff)
  have "card (set ?xs) = card {1..int ?N}"
    using card inc by simp
  with sub have "set ?xs = {1..int ?N}"
    by (simp add: card_subset_eq)
  with d len lw show ?thesis
    by (simp add: consistent_lengths_def partitions_def)
qed

lemma grouped_average_single: "grouped_average xs [index] = Num (xs ! nat (index - 1))"
  by (simp add: grouped_average_def)

lemma grouped_sum_single: "grouped_sum xs [index] = Num (xs ! nat (index - 1))"
  by (simp add: grouped_sum_def)

lemma grouped_average_multi:
  assumes "2 \<le> length b"
  shows "grouped_average xs b = Num (mean (members xs b))"
proof -
  from assms have "b \<noteq> []" and "length b \<noteq> 1" by auto
  then show ?thesis
    by (simp add: grouped_average_def np_average_def mean_def members_def)
qed

lemma grouped_sum_multi:
  assumes "2 \<le> length b"
  shows "grouped_sum xs b = Num (sum_list (members xs b))"
  using assms by (simp add: grouped_sum_def np_sum_def)

lemma check_bandIndices_Inl:
  "check_bandIndices N inc xs = Inl e \<Longrightarrow>
     (\<exists>i. e = DuplicateBandIndexError i) \<or> (\<exists>i. e = BandIndexOutOfRangeError i N)"
  by (induction xs arbitrary: inc) (auto split: if_splits)

lemma check_irRepData_partitions:
  assumes chk: "check_irRepData N {} g = Inr inc" and card: "card inc = N"
  shows "partitions N g"
proof -
  from chk have "check_bandIndices N {} (all_indices g) = Inr inc"
    by (simp add: check_irRepData_all_indices)
  from check_bandIndices_Inr [OF this]
  have d: "distinct (all_indices g)" and r: "in_range N (all_indices g)"
    and inc: "inc = set (all_indices g)"
    by simp_all
  from r have sub: "set (all_indices g) \<subseteq> {1..int N}"
    by (auto simp: in_range_def list_all_iff)
  have "card (set (all_indices g)) = card {1..int N}"
    using card inc by simp
  with sub have "set (all_indices g) = {1..int N}"
    by (simp add: card_subset_eq)
  with d show ?thesis
    by (simp add: partitions_def)
qed

lemma GroupForPeakTable_None_error:
  "GroupForPeakTable frequencies intensities irRepData None \<noteq>
     Inl InconsistentLinewidthLengthError"
proof (cases "length intensities = length frequencies")
  case False
  then show ?thesis by (simp add: GroupForPeakTable_def)
next
  case len: True
  show ?thesis
  proof (cases "check_irRepData (length frequencies) {} irRepData")
    case (Inl e)
    then have "check_bandIndices (length frequencies) {} (all_indices irRepData) = Inl e"
      by (simp add: check_irRepData_all_indices)
    from check_bandIndices_Inl [OF this] have "e \<noteq> InconsistentLinewidthLengthError"
      by auto
    with Inl len show ?thesis
      by (simp add: GroupForPeakTable_def)
  next
    case (Inr inc)
    show ?thesis
    proof (cases "card inc = length frequencies")
      case False
      with Inr len show ?thesis by (simp add: GroupForPeakTable_def)
    next
      case True
      from check_irRepData_partitions [OF Inr True] len show ?thesis
        by (simp add: GroupForPeakTable_valid consistent_lengths_def)
    qed
  qed
qed

subsection \<open>Claims\<close>

text \<open>
  C1. For inputs of consistent lengths whose groups partition the band indices \<open>1..N\<close>,
  \<open>GroupForPeakTable\<close> returns; the symbols returned are the symbols of \<open>irRepData\<close> in their
  order; there is one frequency, one intensity and (if linewidths were given) one linewidth per
  group, the \<open>k\<close>-th ones belonging to the \<open>k\<close>-th group: a group of one band index passes the
  frequency, intensity and linewidth of that band through unchanged, a group of two or more
  indices gets the mean of the frequencies, the sum of the intensities and the mean of the
  linewidths of its members. Without linewidths the fourth component is \<open>None\<close>.
\<close>

theorem GroupForPeakTable_reduction:
  assumes len: "consistent_lengths frequencies intensities linewidths"
    and part: "partitions (length frequencies) irRepData"
  shows "\<exists>frequenciesNew intensitiesNew linewidthsNew.
     GroupForPeakTable frequencies intensities irRepData linewidths =
       Inr (frequenciesNew, intensitiesNew, map fst irRepData, linewidthsNew) \<and>
     length frequenciesNew = length irRepData \<and>
     length intensitiesNew = length irRepData \<and>
     (\<forall>k < length irRepData.
        (\<forall>index. snd (irRepData ! k) = [index] \<longrightarrow>
           frequenciesNew ! k = Num (frequencies ! nat (index - 1)) \<and>
           intensitiesNew ! k = Num (intensities ! nat (index - 1))) \<and>
        (2 \<le> length (snd (irRepData ! k)) \<longrightarrow>
           frequenciesNew ! k = Num (mean (members frequencies (snd (irRepData ! k)))) \<and>
           intensitiesNew ! k = Num (sum_list (members intensities (snd (irRepData ! k)))))) \<and>
     (case linewidths of
        None \<Rightarrow> linewidthsNew = None
      | Some lw \<Rightarrow>
          (\<exists>ws. linewidthsNew = Some ws \<and> length ws = length irRepData \<and>
             (\<forall>k < length irRepData.
                (\<forall>index. snd (irRepData ! k) = [index] \<longrightarrow>
                   ws ! k = Num (lw ! nat (index - 1))) \<and>
                (2 \<le> length (snd (irRepData ! k)) \<longrightarrow>
                   ws ! k = Num (mean (members lw (snd (irRepData ! k))))))))"
proof (intro exI conjI)
  show "GroupForPeakTable frequencies intensities irRepData linewidths =
      Inr (map (\<lambda>p. grouped_average frequencies (snd p)) irRepData,
           map (\<lambda>p. grouped_sum intensities (snd p)) irRepData,
           map fst irRepData,
           map_option (\<lambda>lw. map (\<lambda>p. grouped_average lw (snd p)) irRepData) linewidths)"
    by (rule GroupForPeakTable_valid [OF len part])
next
  show "length (map (\<lambda>p. grouped_average frequencies (snd p)) irRepData) = length irRepData"
    by simp
next
  show "length (map (\<lambda>p. grouped_sum intensities (snd p)) irRepData) = length irRepData"
    by simp
next
  show "\<forall>k < length irRepData.
        (\<forall>index. snd (irRepData ! k) = [index] \<longrightarrow>
           map (\<lambda>p. grouped_average frequencies (snd p)) irRepData ! k =
             Num (frequencies ! nat (index - 1)) \<and>
           map (\<lambda>p. grouped_sum intensities (snd p)) irRepData ! k =
             Num (intensities ! nat (index - 1))) \<and>
        (2 \<le> length (snd (irRepData ! k)) \<longrightarrow>
           map (\<lambda>p. grouped_average frequencies (snd p)) irRepData ! k =
             Num (mean (members frequencies (snd (irRepData ! k)))) \<and>
           map (\<lambda>p. grouped_sum intensities (snd p)) irRepData ! k =
             Num (sum_list (members intensities (snd (irRepData ! k)))))"
    by (simp add: grouped_average_single grouped_sum_single grouped_average_multi
        grouped_sum_multi)
next
  show "case linewidths of
        None \<Rightarrow> map_option (\<lambda>lw. map (\<lambda>p. grouped_average lw (snd p)) irRepData) linewidths = None
      | Some lw \<Rightarrow>
          (\<exists>ws. map_option (\<lambda>lw. map (\<lambda>p. grouped_average lw (snd p)) irRepData) linewidths =
                  Some ws \<and> length ws = length irRepData \<and>
             (\<forall>k < length irRepData.
                (\<forall>index. snd (irRepData ! k) = [index] \<longrightarrow>
                   ws ! k = Num (lw ! nat (index - 1))) \<and>
                (2 \<le> length (snd (irRepData ! k)) \<longrightarrow>
                   ws ! k = Num (mean (members lw (snd (irRepData ! k)))))))"
    by (cases linewidths) (simp_all add: grouped_average_single grouped_average_multi)
qed

lemma sample_partition:
  "partitions 4 [(''A'', [1]), (''B'', [2, 3]), (''C'', [4])]"
  by (auto simp: partitions_def all_indices_def)

theorem GroupForPeakTable_reduction_witness:
  "consistent_lengths [10, 20, 40, 80] [1, 2, 3, 4] (Some [2, 4, 8, 6]) \<and>
   partitions (length [10, 20, 40, 80 :: real]) [(''A'', [1]), (''B'', [2, 3]), (''C'', [4])] \<and>
   GroupForPeakTable [10, 20, 40, 80] [1, 2, 3, 4]
       [(''A'', [1]), (''B'', [2, 3]), (''C'', [4])] (Some [2, 4, 8, 6]) =
     Inr ([Num 10, Num 30, Num 80], [Num 1, Num 5, Num 4], [''A'', ''B'', ''C''],
          Some [Num 2, Num 6, Num 6])"
proof -
  have 1: "consistent_lengths [10, 20, 40, 80] [1, 2, 3, 4] (Some [2, 4, 8, 6])"
    by (simp add: consistent_lengths_def)
  have 2: "partitions (length [10, 20, 40, 80 :: real])
      [(''A'', [1]), (''B'', [2, 3]), (''C'', [4])]"
  proof -
    have "length [10, 20, 40, 80 :: real] = 4" by simp
    then show ?thesis by (simp only: sample_partition)
  qed
  have 3: "GroupForPeakTable [10, 20, 40, 80] [1, 2, 3, 4]
       [(''A'', [1]), (''B'', [2, 3]), (''C'', [4])] (Some [2, 4, 8, 6]) =
     Inr ([Num 10, Num 30, Num 80], [Num 1, Num 5, Num 4], [''A'', ''B'', ''C''],
          Some [Num 2, Num 6, Num 6])"
    by (simp add: GroupForPeakTable_def reduce_group_def getitem_def np_average_def np_sum_def)
  from GroupForPeakTable_reduction [OF 1 2] have "\<exists>frequenciesNew intensitiesNew linewidthsNew.
      GroupForPeakTable [10, 20, 40, 80] [1, 2, 3, 4]
        [(''A'', [1]), (''B'', [2, 3]), (''C'', [4])] (Some [2, 4, 8, 6]) =
      Inr (frequenciesNew, intensitiesNew, [''A'', ''B'', ''C''], linewidthsNew)"
    by auto
  with 1 2 3 show ?thesis by simp
qed

text \<open>
  C4 (as amended). Let the lengths of the inputs be consistent. If in the sequence of all band
  indices (group after group) an index repeats an earlier one, and the indices before that
  occurrence are distinct and within \<open>1..N\<close>, the call fails with \<open>DuplicateBandIndexError\<close>
  for that index: the failure comes from the loop over the indices, before the number of
  indices is compared with \<open>N\<close>. If no index is repeated, all indices are within \<open>1..N\<close> and
  there are fewer than \<open>N\<close> of them, the call fails with \<open>IncompleteBandCoverageError\<close>.
\<close>

theorem GroupForPeakTable_index_errors:
  assumes len: "consistent_lengths frequencies intensities linewidths"
  shows "(all_indices irRepData = pre @ index # post \<and> distinct pre \<and>
          in_range (length frequencies) pre \<and> index \<in> set pre \<longrightarrow>
            GroupForPeakTable frequencies intensities irRepData linewidths =
              Inl (DuplicateBandIndexError index)) \<and>
         (distinct (all_indices irRepData) \<and>
          in_range (length frequencies) (all_indices irRepData) \<and>
          card (set (all_indices irRepData)) < length frequencies \<longrightarrow>
            GroupForPeakTable frequencies intensities irRepData linewidths =
              Inl (IncompleteBandCoverageError (length frequencies)))"
proof (intro conjI impI)
  assume a: "all_indices irRepData = pre @ index # post \<and> distinct pre \<and>
    in_range (length frequencies) pre \<and> index \<in> set pre"
  then have "check_bandIndices (length frequencies) {} (all_indices irRepData) =
      Inl (DuplicateBandIndexError index)"
    by (simp add: check_bandIndices_duplicate)
  then have "check_irRepData (length frequencies) {} irRepData =
      Inl (DuplicateBandIndexError index)"
    by (simp add: check_irRepData_all_indices)
  with len show "GroupForPeakTable frequencies intensities irRepData linewidths =
      Inl (DuplicateBandIndexError index)"
    by (cases linewidths) (simp_all add: GroupForPeakTable_def consistent_lengths_def)
next
  assume a: "distinct (all_indices irRepData) \<and>
    in_range (length frequencies) (all_indices irRepData) \<and>
    card (set (all_indices irRepData)) < length frequencies"
  then have "check_bandIndices (length frequencies) {} (all_indices irRepData) =
      Inr ({} \<union> set (all_indices irRepData))"
    by (intro check_bandIndices_ok) simp_all
  then have "check_irRepData (length frequencies) {} irRepData =
      Inr (set (all_indices irRepData))"
    by (simp add: check_irRepData_all_indices)
  with len a show "GroupForPeakTable frequencies intensities irRepData linewidths =
      Inl (IncompleteBandCoverageError (length frequencies))"
    by (cases linewidths) (simp_all add: GroupForPeakTable_def consistent_lengths_def)
qed

theorem GroupForPeakTable_index_errors_witness:
  "consistent_lengths [10, 20, 30] [1, 2, 3] None \<and>
   all_indices [(''A'', [1, 1, 2])] = [1] @ 1 # [2] \<and> distinct [1 :: int] \<and>
   in_range (length [10, 20, 30 :: real]) [1] \<and> (1 :: int) \<in> set [1] \<and>
   GroupForPeakTable [10, 20, 30] [1, 2, 3] [(''A'', [1, 1, 2])] None =
     Inl (DuplicateBandIndexError 1) \<and>
   distinct (all_indices [(''A'', [1, 2])]) \<and>
   in_range (length [10, 20, 30 :: real]) (all_indices [(''A'', [1, 2])]) \<and>
   card (set (all_indices [(''A'', [1, 2])])) < length [10, 20, 30 :: real] \<and>
   GroupForPeakTable [10, 20, 30] [1, 2, 3] [(''A'', [1, 2])] None =
     Inl (IncompleteBandCoverageError 3)"
proof -
  have 1: "consistent_lengths [10, 20, 30] [1, 2, 3] None"
    by (simp add: consistent_lengths_def)
  have 2: "all_indices [(''A'', [1, 1, 2])] = [1] @ 1 # [2] \<and> distinct [1 :: int] \<and>
      in_range (length [10, 20, 30 :: real]) [1] \<and> (1 :: int) \<in> set [1]"
    by (simp add: all_indices_def in_range_def)
  have 3: "distinct (all_indices [(''A'', [1, 2])]) \<and>
      in_range (length [10, 20, 30 :: real]) (all_indices [(''A'', [1, 2])]) \<and>
      card (set (all_indices [(''A'', [1, 2])])) < length [10, 20, 30 :: real]"
    by (simp add: all_indices_def in_range_def)
  from 2 GroupForPeakTable_index_errors [OF 1, of "[(''A'', [1, 1, 2])]" "[1]" 1 "[2]"]
  have 4: "GroupForPeakTable [10, 20, 30] [1, 2, 3] [(''A'', [1, 1, 2])] None =
      Inl (DuplicateBandIndexError 1)"
    by blast
  from 3 GroupForPeakTable_index_errors [OF 1, of "[(''A'', [1, 2])]"]
  have 5: "GroupForPeakTable [10, 20, 30] [1, 2, 3] [(''A'', [1, 2])] None =
      Inl (IncompleteBandCoverageError (length [10, 20, 30 :: real]))"
    by blast
  from 1 2 3 4 5 show ?thesis by simp
qed

text \<open>
  The claim as stated (whenever some index is repeated) fails: a repeated index that is out of
  range is reported as out of range at its first occurrence, and inconsistent lengths are
  reported before any index is looked at.
\<close>

theorem GroupForPeakTable_duplicate_counterexample:
  "GroupForPeakTable [10] [1] [(''A'', [7, 7])] None = Inl (BandIndexOutOfRangeError 7 1) \<and>
   GroupForPeakTable [10, 20] [1] [(''A'', [1, 1])] None = Inl InconsistentLengthError"
  by (simp add: GroupForPeakTable_def)

text \<open>
  C10. Without linewidths the call never fails on the length of the linewidths, it returns for
  every valid input, and whenever it returns the fourth component is \<open>None\<close>. Whenever a call
  with linewidths returns, the linewidths had length \<open>N\<close> and the fourth component is a list
  with one entry per group, computed from the linewidths by the rule that computes the
  grouped frequencies from the frequencies: it is what the call returns as frequencies when
  the linewidths are passed in their place.
\<close>

theorem GroupForPeakTable_linewidths:
  "GroupForPeakTable frequencies intensities irRepData None \<noteq>
     Inl InconsistentLinewidthLengthError \<and>
   (consistent_lengths frequencies intensities None \<and>
    partitions (length frequencies) irRepData \<longrightarrow>
      (\<exists>frequenciesNew intensitiesNew.
         GroupForPeakTable frequencies intensities irRepData None =
           Inr (frequenciesNew, intensitiesNew, map fst irRepData, None))) \<and>
   (\<forall>frequenciesNew intensitiesNew symbols linewidthsNew.
      GroupForPeakTable frequencies intensities irRepData None =
        Inr (frequenciesNew, intensitiesNew, symbols, linewidthsNew) \<longrightarrow>
      linewidthsNew = None) \<and>
   (\<forall>frequenciesNew intensitiesNew symbols linewidthsNew.
      GroupForPeakTable frequencies intensities irRepData (Some linewidths) =
        Inr (frequenciesNew, intensitiesNew, symbols, linewidthsNew) \<longrightarrow>
      length linewidths = length frequencies \<and>
      (\<exists>ws. linewidthsNew = Some ws \<and> length ws = length irRepData \<and>
         (\<forall>k < length irRepData.
            ws ! k = grouped_average linewidths (snd (irRepData ! k)) \<and>
            frequenciesNew ! k = grouped_average frequencies (snd (irRepData ! k))) \<and>
         GroupForPeakTable linewidths intensities irRepData None =
           Inr (ws, intensitiesNew, symbols, None)))"
proof (intro conjI allI impI)
  show "GroupForPeakTable frequencies intensities irRepData None \<noteq>
      Inl InconsistentLinewidthLengthError"
    by (rule GroupForPeakTable_None_error)
next
  assume "consistent_lengths frequencies intensities None \<and>
    partitions (length frequencies) irRepData"
  then show "\<exists>frequenciesNew intensitiesNew.
      GroupForPeakTable frequencies intensities irRepData None =
        Inr (frequenciesNew, intensitiesNew, map fst irRepData, None)"
    by (simp add: GroupForPeakTable_valid)
next
  fix frequenciesNew intensitiesNew symbols linewidthsNew
  assume r: "GroupForPeakTable frequencies intensities irRepData None =
    Inr (frequenciesNew, intensitiesNew, symbols, linewidthsNew)"
  from GroupForPeakTable_Inr [OF r] r show "linewidthsNew = None"
    by (simp add: GroupForPeakTable_valid)
next
  fix frequenciesNew intensitiesNew symbols linewidthsNew
  assume r: "GroupForPeakTable frequencies intensities irRepData (Some linewidths) =
    Inr (frequenciesNew, intensitiesNew, symbols, linewidthsNew)"
  note v = GroupForPeakTable_Inr [OF r]
  then show "length linewidths = length frequencies"
    by (simp add: consistent_lengths_def)
  from v have v': "consistent_lengths linewidths intensities None"
    and p': "partitions (length linewidths) irRepData"
    by (simp_all add: consistent_lengths_def)
  from v r GroupForPeakTable_valid [OF v' p']
  show "\<exists>ws. linewidthsNew = Some ws \<and> length ws = length irRepData \<and>
      (\<forall>k < length irRepData.
         ws ! k = grouped_average linewidths (snd (irRepData ! k)) \<and>
         frequenciesNew ! k = grouped_average frequencies (snd (irRepData ! k))) \<and>
      GroupForPeakTable linewidths intensities irRepData None =
        Inr (ws, intensitiesNew, symbols, None)"
    by (auto simp: GroupForPeakTable_valid)
qed

theorem GroupForPeakTable_linewidths_witness:
  "consistent_lengths [10, 20, 40, 80] [1, 2, 3, 4] None \<and>
   partitions (length [10, 20, 40, 80 :: real]) [(''A'', [1]), (''B'', [2, 3]), (''C'', [4])] \<and>
   GroupForPeakTable [10, 20, 40, 80] [1, 2, 3, 4]
       [(''A'', [1]), (''B'', [2, 3]), (''C'', [4])] None =
     Inr ([Num 10, Num 30, Num 80], [Num 1, Num 5, Num 4], [''A'', ''B'', ''C''], None) \<and>
   GroupForPeakTable [10, 20, 40, 80] [1, 2, 3, 4]
       [(''A'', [1]), (''B'', [2, 3]), (''C'', [4])] (Some [2, 4, 8, 6]) =
     Inr ([Num 10, Num 30, Num 80], [Num 1, Num 5, Num 4], [''A'', ''B'', ''C''],
          Some [Num 2, Num 6, Num 6]) \<and>
   GroupForPeakTable [2, 4, 8, 6] [1, 2, 3, 4]
       [(''A'', [1]), (''B'', [2, 3]), (''C'', [4])] None =
     Inr ([Num 2, Num 6, Num 6], [Num 1, Num 5, Num 4], [''A'', ''B'', ''C''], None)"
proof -
  let ?g = "[(''A'', [1 :: int]), (''B'', [2, 3]), (''C'', [4])]"
  have 1: "consistent_lengths [10, 20, 40, 80] [1, 2, 3, 4] None"
    by (simp add: consistent_lengths_def)
  have 2: "partitions (length [10, 20, 40, 80 :: real]) ?g"
    by (auto simp: partitions_def all_indices_def)
  have 3: "GroupForPeakTable [10, 20, 40, 80] [1, 2, 3, 4] ?g None =
      Inr ([Num 10, Num 30, Num 80], [Num 1, Num 5, Num 4], [''A'', ''B'', ''C''], None)"
    by (simp add: GroupForPeakTable_def reduce_group_def getitem_def np_average_def np_sum_def)
  have 4: "GroupForPeakTable [10, 20, 40, 80] [1, 2, 3, 4] ?g (Some [2, 4, 8, 6]) =
      Inr ([Num 10, Num 30, Num 80], [Num 1, Num 5, Num 4], [''A'', ''B'', ''C''],
           Some [Num 2, Num 6, Num 6])"
    by (simp add: GroupForPeakTable_def reduce_group_def getitem_def np_average_def np_sum_def)
  from 4 GroupForPeakTable_linewidths
    [of "[10, 20, 40, 80]" "[1, 2, 3, 4]" ?g "[2, 4, 8, 6]"]
  have 5: "GroupForPeakTable [2, 4, 8, 6] [1, 2, 3, 4] ?g None =
      Inr ([Num 2, Num 6, Num 6], [Num 1, Num 5, Num 4], [''A'', ''B'', ''C''], None)"
    by auto
  from 1 2 3 4 5 show ?thesis by simp
qed

section \<open>Fractional to cartesian coordinates\<close>

lemma comprehension_Inr:
  assumes "\<And>x. x \<in> set xs \<Longrightarrow> f x = Inr (g x)"
  shows "comprehension f xs = Inr (map g xs)"
  using assms by (induction xs) simp_all

lemma length_three:
  assumes "length xs = 3"
  obtains a b c where "xs = [a, b, c]"
proof -
  from assms obtain a ys where 1: "xs = a # ys" and "length ys = 2"
    by (cases xs) auto
  then obtain b zs where 2: "ys = b # zs" and "length zs = 1"
    by (cases ys) auto
  then obtain c where "zs = [c]"
    by (cases zs) auto
  with 1 2 have "xs = [a, b, c]" by simp
  then show thesis by (rule that)
qed

text \<open>
  C9. For every lattice of three rows of three numbers, singular or not, and every list of
  positions of three components, \<open>FractionalToCartesianCoordinates\<close> returns, and the vector
  returned for the position \<open>(f1, f2, f3)\<close> is \<open>f1 * v1 + f2 * v2 + f3 * v3\<close>, component by
  component, where \<open>v1\<close>, \<open>v2\<close>, \<open>v3\<close> are the rows of the lattice. No matrix is inverted.
\<close>

theorem FractionalToCartesianCoordinates_combination:
  assumes L: "lattice_3x3 latticeVectors"
    and P: "three_component positions"
  shows "FractionalToCartesianCoordinates positions latticeVectors =
     Inr (map (\<lambda>position.
            map (\<lambda>k. position ! 0 * latticeVectors ! 0 ! k +
                     position ! 1 * latticeVectors ! 1 ! k +
                     position ! 2 * latticeVectors ! 2 ! k) [0, 1, 2])
          positions)"
proof -
  from L have "length latticeVectors = 3"
    by (simp add: lattice_3x3_def)
  then obtain v1 v2 v3 where lv: "latticeVectors = [v1, v2, v3]"
    by (rule length_three)
  with L have "length v1 = 3" "length v2 = 3" "length v3 = 3"
    by (simp_all add: lattice_3x3_def)
  then obtain a1 b1 c1 a2 b2 c2 a3 b3 c3
    where v: "v1 = [a1, b1, c1]" "v2 = [a2, b2, c2]" "v3 = [a3, b3, c3]"
    by (metis length_three)
  have shape: "np_shape2 latticeVectors = Inr (3, 3)"
    by (simp add: np_shape2_def lv v)
  let ?f = "\<lambda>position. case position of
        [f1, f2, f3] \<Rightarrow>
          Inr (np_add (np_add (np_multiply f1 v1) (np_multiply f2 v2)) (np_multiply f3 v3))
      | _ \<Rightarrow> Inl ValueError"
  let ?g = "\<lambda>position. map (\<lambda>k. position ! 0 * latticeVectors ! 0 ! k +
      position ! 1 * latticeVectors ! 1 ! k + position ! 2 * latticeVectors ! 2 ! k)
      [0, 1, 2 :: nat]"
  have "comprehension ?f positions = Inr (map ?g positions)"
  proof (rule comprehension_Inr)
    fix p
    assume "p \<in> set positions"
    with P have "length p = 3"
      by (simp add: three_component_def list_all_iff)
    then obtain f1 f2 f3 where "p = [f1, f2, f3]"
      by (rule length_three)
    then show "?f p = Inr (?g p)"
      by (simp add: lv v np_add_def np_multiply_def)
  qed
  with shape show ?thesis
    by (simp add: FractionalToCartesianCoordinates_def lv)
qed

theorem FractionalToCartesianCoordinates_combination_witness:
  "lattice_3x3 [[1, 2, 3], [2, 4, 6], [0, 0, 0]] \<and>
   three_component [[1, 1, 1], [0, 1 / 2, 7]] \<and>
   FractionalToCartesianCoordinates [[1, 1, 1], [0, 1 / 2, 7]] [[1, 2, 3], [2, 4, 6], [0, 0, 0]] =
     Inr [[3, 6, 9], [1, 2, 3]]"
proof -
  have 1: "lattice_3x3 [[1, 2, 3], [2, 4, 6], [0, 0, 0]]"
    by (simp add: lattice_3x3_def)
  have 2: "three_component [[1, 1, 1], [0, 1 / 2, 7]]"
    by (simp add: three_component_def)
  from 1 2 FractionalToCartesianCoordinates_combination [OF 1 2]
  show ?thesis by simp
qed

section \<open>Eigendisplacements\<close>

lemma eigendisplacements_ok:
  assumes shape: "eigenvector_shape N eigenvectors"
    and masses: "length atomicMasses = N"
    and N: "0 < N"
  shows "EigenvectorsToEigendisplacements eigenvectors atomicMasses =
     Inr (map (\<lambda>i. map (\<lambda>j. map (\<lambda>x. np_divide x (np_sqrt (atomicMasses ! j)))
                               (eigenvectors ! i ! j)) [0..<N]) [0..<3 * N])"
proof -
  from shape have len: "length eigenvectors = 3 * N"
    and modes: "\<And>mode. mode \<in> set eigenvectors \<Longrightarrow> length mode = N"
    and disps: "\<And>mode d. mode \<in> set eigenvectors \<Longrightarrow> d \<in> set mode \<Longrightarrow> length d = 3"
    by (auto simp: eigenvector_shape_def list_all_iff)
  from len N have ne: "eigenvectors \<noteq> []" by auto
  then have e0: "eigenvectors ! 0 \<in> set eigenvectors" by simp
  have g0: "getitem eigenvectors 0 = Inr (eigenvectors ! 0)"
    using ne by (simp add: getitem_def)
  have l0: "length (eigenvectors ! 0) = N"
    by (rule modes [OF e0])
  with N have e00: "eigenvectors ! 0 ! 0 \<in> set (eigenvectors ! 0)" by simp
  have g00: "getitem (eigenvectors ! 0) 0 = Inr (eigenvectors ! 0 ! 0)"
    using l0 N by (simp add: getitem_def)
  have l00: "length (eigenvectors ! 0 ! 0) = 3"
    by (rule disps [OF e0 e00])
  let ?row = "\<lambda>i j. map (\<lambda>x. np_divide x (np_sqrt (atomicMasses ! j))) (eigenvectors ! i ! j)"
  let ?inner = "\<lambda>i j. case getitem (eigenvectors ! i) (int j) of
        Inl e \<Rightarrow> Inl e
      | Inr d \<Rightarrow> assign_slice3 (map (\<lambda>x. np_divide x (map np_sqrt atomicMasses ! j)) d)"
  have inner: "?inner i j = Inr (?row i j)" if i: "i < 3 * N" and j: "j < N" for i j
  proof -
    from i len have m: "eigenvectors ! i \<in> set eigenvectors" by simp
    from modes [OF m] j have gj: "getitem (eigenvectors ! i) (int j) = Inr (eigenvectors ! i ! j)"
      by (simp add: getitem_def)
    from modes [OF m] j have "eigenvectors ! i ! j \<in> set (eigenvectors ! i)" by simp
    from disps [OF m this] have "length (eigenvectors ! i ! j) = 3" .
    with gj j masses show ?thesis
      by (simp add: assign_slice3_def)
  qed
  have outer: "comprehension (\<lambda>i. comprehension (?inner i) [0..<N]) [0..<3 * N] =
      Inr (map (\<lambda>i. map (?row i) [0..<N]) [0..<3 * N])"
  proof (rule comprehension_Inr)
    fix i
    assume "i \<in> set [0..<3 * N]"
    then have i: "i < 3 * N" by simp
    show "comprehension (?inner i) [0..<N] = Inr (map (?row i) [0..<N])"
      by (rule comprehension_Inr) (simp add: inner [OF i])
  qed
  from g0 g00 l0 l00 len masses outer show ?thesis
    by (simp add: EigenvectorsToEigendisplacements_def Let_def)
qed

text \<open>
  C6 (as amended). For at least one atom (\<open>0 < N\<close>), an eigenvector set of shape
  \<open>3N x N x 3\<close> and \<open>N\<close> masses, \<open>EigenvectorsToEigendisplacements\<close> returns an array of the
  same shape whose entry for mode \<open>i\<close> and atom \<open>j\<close> is the displacement \<open>eigenvectors[i][j]\<close>
  with every component divided (by \<^verbatim>\<open>np.divide\<close>) by \<^verbatim>\<open>np.sqrt\<close> of the mass of atom \<open>j\<close>; for a
  positive mass that is the quotient of the reals by the square root of the mass.
\<close>

theorem EigenvectorsToEigendisplacements_scaling:
  assumes shape: "eigenvector_shape N eigenvectors"
    and masses: "length atomicMasses = N"
    and N: "0 < N"
  shows "\<exists>eigendisplacements.
     EigenvectorsToEigendisplacements eigenvectors atomicMasses = Inr eigendisplacements \<and>
     length eigendisplacements = 3 * N \<and>
     (\<forall>i < 3 * N. length (eigendisplacements ! i) = N \<and>
        (\<forall>j < N. length (eigendisplacements ! i ! j) = 3 \<and>
           eigendisplacements ! i ! j =
             map (\<lambda>x. np_divide x (np_sqrt (atomicMasses ! j))) (eigenvectors ! i ! j) \<and>
           (0 < atomicMasses ! j \<longrightarrow>
              eigendisplacements ! i ! j =
                map (\<lambda>x. Num (x / sqrt (atomicMasses ! j))) (eigenvectors ! i ! j))))"
proof (intro exI conjI allI impI)
  let ?out = "map (\<lambda>i. map (\<lambda>j. map (\<lambda>x. np_divide x (np_sqrt (atomicMasses ! j)))
      (eigenvectors ! i ! j)) [0..<N]) [0..<3 * N]"
  show "EigenvectorsToEigendisplacements eigenvectors atomicMasses = Inr ?out"
    by (rule eigendisplacements_ok [OF shape masses N])
  show "length ?out = 3 * N" by simp
  fix i assume i: "i < 3 * N"
  then show "length (?out ! i) = N" by simp
  fix j assume j: "j < N"
  from shape i have m: "eigenvectors ! i \<in> set eigenvectors" "length (eigenvectors ! i) = N"
    by (auto simp: eigenvector_shape_def list_all_iff)
  with shape j have "length (eigenvectors ! i ! j) = 3"
    by (auto simp: eigenvector_shape_def list_all_iff)
  with i j show "length (?out ! i ! j) = 3" by simp
  from i j show "?out ! i ! j =
      map (\<lambda>x. np_divide x (np_sqrt (atomicMasses ! j))) (eigenvectors ! i ! j)"
    by simp
  assume "0 < atomicMasses ! j"
  with i j show "?out ! i ! j = map (\<lambda>x. Num (x / sqrt (atomicMasses ! j))) (eigenvectors ! i ! j)"
    by (simp add: np_divide_def np_sqrt_def)
qed

theorem EigenvectorsToEigendisplacements_scaling_witness:
  "eigenvector_shape 1 [[[2, 0, 0]], [[0, 2, 0]], [[0, 0, 2]]] \<and> length [4 :: real] = 1 \<and>
   (0 :: nat) < 1 \<and>
   EigenvectorsToEigendisplacements [[[2, 0, 0]], [[0, 2, 0]], [[0, 0, 2]]] [4] =
     Inr [[[Num 1, Num 0, Num 0]], [[Num 0, Num 1, Num 0]], [[Num 0, Num 0, Num 1]]]"
proof -
  have 1: "eigenvector_shape 1 [[[2, 0, 0]], [[0, 2, 0]], [[0, 0, 2]]]"
    by (simp add: eigenvector_shape_def)
  have 2: "length [4 :: real] = 1" by simp
  have 3: "(0 :: nat) < 1" by simp
  have 4: "EigenvectorsToEigendisplacements [[[2, 0, 0]], [[0, 2, 0]], [[0, 0, 2]]] [4] =
      Inr [[[Num 1, Num 0, Num 0]], [[Num 0, Num 1, Num 0]], [[Num 0, Num 0, Num 1]]]"
    by (simp add: EigenvectorsToEigendisplacements_def getitem_def np_sqrt_def np_divide_def
        assign_slice3_def upt_rec Let_def)
  from EigenvectorsToEigendisplacements_scaling [OF 1 2 3] 1 2 3 4 show ?thesis
    by simp
qed

text \<open>
  The claim as stated (every eigenvector set of the right shape) fails for no atoms: the empty
  eigenvector set with no masses has the shape for \<open>N = 0\<close>, and line 205 reads its first mode.
\<close>

theorem EigenvectorsToEigendisplacements_empty_counterexample:
  "eigenvector_shape 0 [] \<and> length ([] :: real list) = 0 \<and>
   EigenvectorsToEigendisplacements [] [] = Inl IndexError"
  by (simp add: eigenvector_shape_def EigenvectorsToEigendisplacements_def getitem_def)

text \<open>
  C5 (as amended). For one atom of mass 4 the eigenvector set has three modes, each of one
  displacement of three components. When such a set contains the mode \<open>[[2, 0, 0]]\<close>, at any
  of the three positions, the call returns three modes, the mode \<open>[[2, 0, 0]]\<close> becomes
  \<open>[[1, 0, 0]]\<close>, and every component of every mode is divided by \<open>sqrt 4 = 2\<close>.
\<close>

theorem EigenvectorsToEigendisplacements_example:
  assumes shape: "eigenvector_shape 1 eigenvectors"
    and i: "i < 3"
    and mode: "eigenvectors ! i = [[2, 0, 0]]"
  shows "\<exists>eigendisplacements.
     EigenvectorsToEigendisplacements eigenvectors [4] = Inr eigendisplacements \<and>
     length eigendisplacements = 3 \<and>
     eigendisplacements ! i = [[Num 1, Num 0, Num 0]] \<and>
     (\<forall>k < 3. eigendisplacements ! k = [map (\<lambda>x. Num (x / 2)) (eigenvectors ! k ! 0)])"
proof (intro exI conjI allI impI)
  let ?out = "map (\<lambda>i. map (\<lambda>j. map (\<lambda>x. np_divide x (np_sqrt ([4] ! j)))
      (eigenvectors ! i ! j)) [0..<1]) [0..<3 * 1]"
  show "EigenvectorsToEigendisplacements eigenvectors [4] = Inr ?out"
    by (rule eigendisplacements_ok [OF shape]) simp_all
  show "length ?out = 3" by simp
  from i mode show "?out ! i = [[Num 1, Num 0, Num 0]]"
    by (simp add: np_divide_def np_sqrt_def)
  fix k :: nat
  assume "k < 3"
  then show "?out ! k = [map (\<lambda>x. Num (x / 2)) (eigenvectors ! k ! 0)]"
    by (simp add: np_divide_def np_sqrt_def)
qed

theorem EigenvectorsToEigendisplacements_example_witness:
  "eigenvector_shape 1 [[[0, 2, 0]], [[2, 0, 0]], [[0, 0, 2]]] \<and> (1 :: nat) < 3 \<and>
   [[[0, 2, 0]], [[2, 0, 0]], [[0, 0, 2 :: real]]] ! 1 = [[2, 0, 0]] \<and>
   EigenvectorsToEigendisplacements [[[0, 2, 0]], [[2, 0, 0]], [[0, 0, 2]]] [4] =
     Inr [[[Num 0, Num 1, Num 0]], [[Num 1, Num 0, Num 0]], [[Num 0, Num 0, Num 1]]]"
proof -
  have 1: "eigenvector_shape 1 [[[0, 2, 0]], [[2, 0, 0]], [[0, 0, 2]]]"
    by (simp add: eigenvector_shape_def)
  have 2: "(1 :: nat) < 3" by simp
  have 3: "[[[0, 2, 0]], [[2, 0, 0]], [[0, 0, 2 :: real]]] ! 1 = [[2, 0, 0]]" by simp
  have 4: "EigenvectorsToEigendisplacements [[[0, 2, 0]], [[2, 0, 0]], [[0, 0, 2]]] [4] =
      Inr [[[Num 0, Num 1, Num 0]], [[Num 1, Num 0, Num 0]], [[Num 0, Num 0, Num 1]]]"
    by (simp add: EigenvectorsToEigendisplacements_def getitem_def np_sqrt_def np_divide_def
        assign_slice3_def upt_rec Let_def)
  from EigenvectorsToEigendisplacements_example [OF 1 2 3] 1 2 3 4 show ?thesis
    by simp
qed

text \<open>
  The claim as stated fails: the mode \<open>[[2, 0, 0]]\<close> alone is one mode for one atom, not three,
  and the check of line 207 raises.
\<close>

theorem EigenvectorsToEigendisplacements_single_mode_counterexample:
  "EigenvectorsToEigendisplacements [[[2, 0, 0]]] [4] = Inl ShapeMismatchError"
  by (simp add: EigenvectorsToEigendisplacements_def getitem_def)

end
